theory Spec2Isabelle
  imports
    Complex_Main
    "HOL-Library.Multiset"
    "HOL-Library.Char_ord"
    "HOL-Library.List_Lexorder"
begin

section \<open>The Netflix dashboard script (Netflix.py)\<close>

text \<open>
  The script is one linear pipeline: read a CSV file into a data frame, clean two
  columns and derive two more (lines 11 to 14), read three filter values from the
  sidebar (lines 38 to 40), filter (lines 43 to 48), compute three summary metrics
  (lines 52 to 54) and seven aggregations (lines 73 to 182).

  A data frame is modelled as the list of its rows, in index order. A cell that the
  data frame holds as NaN, NaT or None is \<open>None\<close> here. The values of the column
  \<open>Hours Viewed\<close> are taken as exact numbers (\<open>real\<close>): the rounding of 64-bit
  floating-point addition and the infinite values are not part of this model. Nothing
  below therefore compares sums that the script adds up in different orders; a sum
  only ever stands for the hours of a stated list of rows, added in the order of the
  table.
\<close>

subsection \<open>Data model\<close>

text \<open>A row as \<open>read_csv\<close> delivers it: every cell is text, or missing.\<close>

record raw_row =
  raw_Title :: "string option"
  raw_Content_Type :: "string option"
  raw_Release_Date :: "string option"
  raw_Hours_Viewed :: "string option"
  raw_Language_Indicator :: "string option"

text \<open>
  A \<open>datetime64[ns]\<close> value is a count of nanoseconds since 1970-01-01T00:00;
  NaT is \<open>None\<close>.
\<close>

type_synonym timestamp = int

text \<open>A row of \<open>netflix_data\<close> after line 14.\<close>

record netflix_row =
  Title :: "string option"
  Content_Type :: "string option"
  Release_Date :: "timestamp option"
  Hours_Viewed :: "real option"
  Language_Indicator :: "string option"
  Release_Month :: "int option"
  Release_Day :: "string option"

datatype error = ValueError

subsection \<open>Calendar fields of a timestamp\<close>

text \<open>
  \<open>.dt.month\<close> and \<open>.dt.day_name()\<close> break the day number of a timestamp down
  into year, month and day of the proleptic Gregorian calendar. The break-down below
  follows the library routine step by step: the day number is moved to an origin at
  2000-01-01, split into 400-year, 100-year, 4-year and 1-year cycles, and the day of
  the year is then walked through a table of month lengths. The routine uses floor
  division, which is what \<open>div\<close> and \<open>mod\<close> are on \<open>int\<close>.
\<close>

definition is_leapyear :: "int \<Rightarrow> bool" where
  "is_leapyear year \<longleftrightarrow> year mod 4 = 0 \<and> (year mod 100 \<noteq> 0 \<or> year mod 400 = 0)"

definition days_per_month_table :: "bool \<Rightarrow> int list" where
  "days_per_month_table leap =
     (if leap then [31, 29, 31, 30, 31, 30, 31, 31, 30, 31, 30, 31]
      else [31, 28, 31, 30, 31, 30, 31, 31, 30, 31, 30, 31])"

definition days_per_400years :: int where
  "days_per_400years = 400 * 365 + 100 - 4 + 1"

text \<open>From a day number to the year and the zero-based day within that year.\<close>

definition days_to_yearsdays :: "int \<Rightarrow> int \<times> int" where
  "days_to_yearsdays days0 =
     (let days1 = days0 - (365 * 30 + 7);
          year1 = 400 * (days1 div days_per_400years);
          days2 = days1 mod days_per_400years
      in if days2 \<ge> 366 then
           (let year2 = year1 + 100 * ((days2 - 1) div (100 * 365 + 25 - 1));
                days3 = (days2 - 1) mod (100 * 365 + 25 - 1)
            in if days3 \<ge> 365 then
                 (let year3 = year2 + 4 * ((days3 + 1) div (4 * 365 + 1));
                      days4 = (days3 + 1) mod (4 * 365 + 1)
                  in if days4 \<ge> 366 then
                       (year3 + (days4 - 1) div 365 + 2000, (days4 - 1) mod 365)
                     else (year3 + 2000, days4))
               else (year2 + 2000, days3))
         else (year1 + 2000, days2))"

text \<open>
  The loop over the twelve month lengths: \<open>i\<close> counts the months already passed.
  It yields the month (from 1) and the day of the month (from 1); a loop that ran
  through the whole table without a hit would leave both unset, which is \<open>None\<close>.
\<close>

fun month_loop :: "int list \<Rightarrow> int \<Rightarrow> int \<Rightarrow> (int \<times> int) option" where
  "month_loop [] days i = None"
| "month_loop (len # month_lengths) days i =
     (if days < len then Some (i + 1, days + 1)
      else month_loop month_lengths (days - len) (i + 1))"

definition ns_per_day :: int where
  "ns_per_day = 86400 * 1000000000"

text \<open>Year, month and day of a timestamp.\<close>

definition datetimestruct :: "timestamp \<Rightarrow> (int \<times> int \<times> int) option" where
  "datetimestruct ts =
     (let (year, days) = days_to_yearsdays (ts div ns_per_day)
      in case month_loop (days_per_month_table (is_leapyear year)) days 0 of
           None \<Rightarrow> None
         | Some (month, day) \<Rightarrow> Some (year, month, day))"

definition dt_month :: "timestamp option \<Rightarrow> int option" where
  "dt_month d =
     (case d of None \<Rightarrow> None
      | Some ts \<Rightarrow> map_option (\<lambda>(year, month, day). month) (datetimestruct ts))"

text \<open>The day of the week of a calendar date, 0 for Monday to 6 for Sunday.\<close>

definition em :: "int list" where
  "em = [0, 0, 3, 2, 5, 0, 3, 5, 1, 4, 6, 2, 4]"

definition dayofweek :: "int \<Rightarrow> int \<Rightarrow> int \<Rightarrow> int" where
  "dayofweek y m d =
     (let y' = (if m < 3 then y - 1 else y);
          c = y' div 100;
          g = y' - c * 100;
          f = 5 * (c mod 4);
          e = em ! nat m
      in (- 1 + d + e + f + g + g div 4) mod 7)"

definition DAYS_FULL :: "string list" where
  "DAYS_FULL = [''Monday'', ''Tuesday'', ''Wednesday'', ''Thursday'', ''Friday'',
                ''Saturday'', ''Sunday'']"

definition dt_day_name :: "timestamp option \<Rightarrow> string option" where
  "dt_day_name d =
     (case d of None \<Rightarrow> None
      | Some ts \<Rightarrow>
          map_option (\<lambda>(year, month, day). DAYS_FULL ! nat (dayofweek year month day))
            (datetimestruct ts))"

subsection \<open>Preprocessing (lines 11 to 14)\<close>

text \<open>
  Line 11, first half: \<open>.replace(',', '', regex=True)\<close> deletes every comma from
  every text cell and leaves a missing cell as it is.
\<close>

definition replace_commas :: "string option \<Rightarrow> string option" where
  "replace_commas cell = map_option (filter (\<lambda>c. c \<noteq> CHR '','')) cell"

text \<open>
  Line 11, second half: \<open>.astype(float)\<close> converts the cells in order and raises
  ValueError at the first text that is not a number. How text is read as a number is
  the language's \<open>float\<close>, a parameter here: \<open>to_float s\<close> is \<open>None\<close> where
  \<open>float(s)\<close> raises, \<open>Some None\<close> where it gives NaN, and \<open>Some (Some x)\<close>
  where it gives the number \<open>x\<close>. A missing cell stays missing.
\<close>

fun astype_float ::
  "(string \<Rightarrow> real option option) \<Rightarrow> string option list \<Rightarrow> error + real option list" where
  "astype_float to_float [] = Inr []"
| "astype_float to_float (None # cells) =
     (case astype_float to_float cells of
        Inl e \<Rightarrow> Inl e
      | Inr vs \<Rightarrow> Inr (None # vs))"
| "astype_float to_float (Some s # cells) =
     (case to_float s of
        None \<Rightarrow> Inl ValueError
      | Some v \<Rightarrow>
          (case astype_float to_float cells of
             Inl e \<Rightarrow> Inl e
           | Inr vs \<Rightarrow> Inr (v # vs)))"

text \<open>
  Line 12: \<open>pd.to_datetime(..., errors='coerce')\<close>. The date parser is a parameter:
  \<open>parse_date s\<close> is \<open>None\<close> where the text is not a date. With
  \<open>errors='coerce'\<close> such a cell, like a missing one, becomes NaT.
\<close>

definition to_datetime :: "(string \<Rightarrow> timestamp option) \<Rightarrow> string option \<Rightarrow> timestamp option" where
  "to_datetime parse_date cell = (case cell of None \<Rightarrow> None | Some s \<Rightarrow> parse_date s)"

text \<open>One row after lines 11 to 14, given its converted \<open>Hours Viewed\<close>.\<close>

definition preprocess_row ::
  "(string \<Rightarrow> timestamp option) \<Rightarrow> raw_row \<Rightarrow> real option \<Rightarrow> netflix_row" where
  "preprocess_row parse_date r hours =
     (let release_date = to_datetime parse_date (raw_Release_Date r)
      in \<lparr>Title = raw_Title r,
          Content_Type = raw_Content_Type r,
          Release_Date = release_date,
          Hours_Viewed = hours,
          Language_Indicator = raw_Language_Indicator r,
          Release_Month = dt_month release_date,
          Release_Day = dt_day_name release_date\<rparr>)"

text \<open>Lines 11 to 14 on the whole table: the only statement that can raise is line 11.\<close>

definition preprocess ::
  "(string \<Rightarrow> real option option) \<Rightarrow> (string \<Rightarrow> timestamp option) \<Rightarrow> raw_row list
     \<Rightarrow> error + netflix_row list" where
  "preprocess to_float parse_date raw =
     (case astype_float to_float (map (replace_commas \<circ> raw_Hours_Viewed) raw) of
        Inl e \<Rightarrow> Inl e
      | Inr hours \<Rightarrow> Inr (map2 (preprocess_row parse_date) raw hours))"

subsection \<open>Sidebar filters (lines 38 to 48)\<close>

text \<open>
  The three filter values come from the sidebar widgets: \<open>content_type\<close> is one of
  the non-missing values of the column, or None when the select box has no option;
  \<open>month_range\<close> is a pair of integers; \<open>languages\<close> is a list of texts, empty
  when nothing is selected.

  Comparing a missing cell with anything is False, and so is every test on it.
\<close>

definition eq_scalar :: "string option \<Rightarrow> string option \<Rightarrow> bool" where
  "eq_scalar cell v = (case cell of None \<Rightarrow> False | Some s \<Rightarrow> v = Some s)"

definition between :: "int option \<Rightarrow> int \<Rightarrow> int \<Rightarrow> bool" where
  "between cell left right = (case cell of None \<Rightarrow> False | Some m \<Rightarrow> left \<le> m \<and> m \<le> right)"

definition isin :: "string option \<Rightarrow> string list \<Rightarrow> bool" where
  "isin cell vals = (case cell of None \<Rightarrow> False | Some s \<Rightarrow> s \<in> set vals)"

definition filtered_data ::
  "netflix_row list \<Rightarrow> string option \<Rightarrow> int \<times> int \<Rightarrow> string list \<Rightarrow> netflix_row list" where
  "filtered_data netflix_data content_type month_range languages =
     (let filtered =
            filter (\<lambda>r. eq_scalar (Content_Type r) content_type \<and>
                        between (Release_Month r) (fst month_range) (snd month_range))
              netflix_data
      in if languages \<noteq> [] then filter (\<lambda>r. isin (Language_Indicator r) languages) filtered
         else filtered)"

subsection \<open>Column operations\<close>

text \<open>\<open>.sum()\<close> skips missing values; the sum of no values is 0.\<close>

definition nansum :: "real option list \<Rightarrow> real" where
  "nansum col = sum_list (map (\<lambda>cell. case cell of None \<Rightarrow> 0 | Some x \<Rightarrow> x) col)"

text \<open>\<open>.dropna()\<close> on a column.\<close>

definition dropna :: "'a option list \<Rightarrow> 'a list" where
  "dropna col = concat (map (\<lambda>cell. case cell of None \<Rightarrow> [] | Some x \<Rightarrow> [x]) col)"

text \<open>\<open>.unique()\<close>: the distinct values in order of first appearance.\<close>

definition unique :: "'a list \<Rightarrow> 'a list" where
  "unique xs = rev (remdups (rev xs))"

text \<open>\<open>.nunique()\<close> counts the distinct values that are not missing.\<close>

definition nunique :: "'a option list \<Rightarrow> nat" where
  "nunique col = length (unique (dropna col))"

text \<open>
  \<open>df.groupby(key)['Hours Viewed'].sum()\<close>: one entry for each value of the key
  column that is not missing, in ascending order of the key, with the sum of the
  group's hours. Rows whose key is missing belong to no group.
\<close>

definition groupby_sum ::
  "(netflix_row \<Rightarrow> 'k::linorder option) \<Rightarrow> netflix_row list \<Rightarrow> ('k \<times> real) list" where
  "groupby_sum key df =
     map (\<lambda>k. (k, nansum (map Hours_Viewed (filter (\<lambda>r. key r = Some k) df))))
       (sort (remdups (dropna (map key df))))"

text \<open>
  \<open>.idxmax()\<close>: the label of the first entry holding the greatest value. On a
  series with no entry it raises ValueError.
\<close>

fun idxmax_from :: "'k \<times> real \<Rightarrow> ('k \<times> real) list \<Rightarrow> 'k" where
  "idxmax_from (bk, bv) [] = bk"
| "idxmax_from (bk, bv) ((k, v) # series) =
     (if v > bv then idxmax_from (k, v) series else idxmax_from (bk, bv) series)"

fun idxmax :: "('k \<times> real) list \<Rightarrow> error + 'k" where
  "idxmax [] = Inl ValueError"
| "idxmax (kv # series) = Inr (idxmax_from kv series)"

text \<open>
  Sorting in descending order, as \<open>sort_values(ascending=False)\<close> arranges it:
  the rows are reversed, sorted in ascending order and reversed again. The ascending
  sort is taken to be stable here, so rows with equal keys keep their order; the
  library's default sort promises no order among equal keys, and no property below
  depends on it.
\<close>

definition sort_desc :: "('a \<Rightarrow> 'b::linorder) \<Rightarrow> 'a list \<Rightarrow> 'a list" where
  "sort_desc by xs = rev (sort_key by (rev xs))"

text \<open>
  \<open>.value_counts()\<close>: the number of occurrences of each value that is not missing,
  greatest count first.
\<close>

definition value_counts :: "'a option list \<Rightarrow> ('a \<times> nat) list" where
  "value_counts col =
     (let vals = dropna col
      in sort_desc snd (map (\<lambda>v. (v, count_list vals v)) (unique vals)))"

text \<open>
  \<open>.reindex(labels)\<close>: the entries for the given labels, in the given order; a
  label the series does not have gets a missing value.
\<close>

definition reindex :: "'k list \<Rightarrow> ('k \<times> 'v) list \<Rightarrow> ('k \<times> 'v option) list" where
  "reindex labels series = map (\<lambda>l. (l, map_of series l)) labels"

subsection \<open>Summary metrics (lines 52 to 54)\<close>

definition total_hours :: "netflix_row list \<Rightarrow> real" where
  "total_hours filtered = nansum (map Hours_Viewed filtered)"

definition unique_titles :: "netflix_row list \<Rightarrow> nat" where
  "unique_titles filtered = nunique (map Title filtered)"

definition most_viewed_type :: "netflix_row list \<Rightarrow> error + string" where
  "most_viewed_type filtered = idxmax (groupby_sum Content_Type filtered)"

subsection \<open>Aggregations (lines 73 to 182)\<close>

definition monthly_viewership :: "netflix_row list \<Rightarrow> (int \<times> real) list" where
  "monthly_viewership filtered = groupby_sum Release_Month filtered"

definition language_viewership :: "netflix_row list \<Rightarrow> (string \<times> real) list" where
  "language_viewership filtered = groupby_sum Language_Indicator filtered"

definition week :: "string list" where
  "week = [''Monday'', ''Tuesday'', ''Wednesday'', ''Thursday'', ''Friday'', ''Saturday'',
           ''Sunday'']"

definition weekday_releases :: "netflix_row list \<Rightarrow> (string \<times> nat option) list" where
  "weekday_releases netflix_data = reindex week (value_counts (map Release_Day netflix_data))"

definition weekday_viewership :: "netflix_row list \<Rightarrow> (string \<times> real option) list" where
  "weekday_viewership netflix_data = reindex week (groupby_sum Release_Day netflix_data)"

text \<open>
  Line 147, \<open>pivot_table\<close> with \<open>aggfunc='sum'\<close>: the rows are grouped by month
  and type together (a row with either one missing is in no group), and the sums are
  laid out with one line for each month and one series for each type that has a group;
  a month and type with no row between them is a missing value.
\<close>

definition monthly_viewership_by_type ::
  "netflix_row list \<Rightarrow> int list \<times> string list \<times> (int \<Rightarrow> string \<Rightarrow> real option)" where
  "monthly_viewership_by_type netflix_data =
     (let grouped =
            filter (\<lambda>r. Release_Month r \<noteq> None \<and> Content_Type r \<noteq> None) netflix_data
      in (sort (remdups (dropna (map Release_Month grouped))),
          sort (remdups (dropna (map Content_Type grouped))),
          (\<lambda>m t.
             (let cell = filter (\<lambda>r. Release_Month r = Some m \<and> Content_Type r = Some t)
                           netflix_data
              in if cell = [] then None else Some (nansum (map Hours_Viewed cell))))))"

text \<open>
  Line 176: the two columns Title and Hours Viewed, sorted by hours in descending
  order with the rows without hours after all others, and the first ten of them.
\<close>

definition sort_values_desc :: "('a \<times> real option) list \<Rightarrow> ('a \<times> real option) list" where
  "sort_values_desc df =
     (let non_nans = concat (map (\<lambda>(t, h). case h of None \<Rightarrow> [] | Some x \<Rightarrow> [(t, x)]) df);
          nans = filter (\<lambda>(t, h). h = None) df
      in map (\<lambda>(t, x). (t, Some x)) (sort_desc snd non_nans) @ nans)"

definition top_content :: "netflix_row list \<Rightarrow> (string option \<times> real option) list" where
  "top_content filtered =
     take 10 (sort_values_desc (map (\<lambda>r. (Title r, Hours_Viewed r)) filtered))"

definition content_distribution :: "netflix_row list \<Rightarrow> (string \<times> nat) list" where
  "content_distribution netflix_data = value_counts (map Content_Type netflix_data)"

subsection \<open>The script from the filters on\<close>

text \<open>
  What one run of the script shows for a table and a filter selection. The statements
  run in order, so an exception in the summary metrics ends the run before any tab is
  filled.
\<close>

record view =
  shown_total_hours :: real
  shown_unique_titles :: nat
  shown_most_viewed_type :: string
  shown_monthly_viewership :: "(int \<times> real) list"
  shown_language_viewership :: "(string \<times> real) list"
  shown_weekday_releases :: "(string \<times> nat option) list"
  shown_weekday_viewership :: "(string \<times> real option) list"
  shown_monthly_viewership_by_type ::
    "int list \<times> string list \<times> (int \<Rightarrow> string \<Rightarrow> real option)"
  shown_top_content :: "(string option \<times> real option) list"
  shown_content_distribution :: "(string \<times> nat) list"

definition dashboard ::
  "netflix_row list \<Rightarrow> string option \<Rightarrow> int \<times> int \<Rightarrow> string list \<Rightarrow> error + view" where
  "dashboard netflix_data content_type month_range languages =
     (let filtered = filtered_data netflix_data content_type month_range languages
      in case most_viewed_type filtered of
           Inl e \<Rightarrow> Inl e
         | Inr mvt \<Rightarrow>
             Inr \<lparr>shown_total_hours = total_hours filtered,
                  shown_unique_titles = unique_titles filtered,
                  shown_most_viewed_type = mvt,
                  shown_monthly_viewership = monthly_viewership filtered,
                  shown_language_viewership = language_viewership filtered,
                  shown_weekday_releases = weekday_releases netflix_data,
                  shown_weekday_viewership = weekday_viewership netflix_data,
                  shown_monthly_viewership_by_type = monthly_viewership_by_type netflix_data,
                  shown_top_content = top_content filtered,
                  shown_content_distribution = content_distribution netflix_data\<rparr>)"

subsection \<open>A concrete table\<close>

text \<open>
  Three rows on which the theorems below are evaluated: two films released in March
  2023 and a show whose release date is not a date. \<open>example_to_float\<close> and
  \<open>example_parse_date\<close> read exactly the texts that occur in them.
\<close>

definition example_raw :: "raw_row list" where
  "example_raw =
     [\<lparr>raw_Title = Some ''A'', raw_Content_Type = Some ''Movie'',
       raw_Release_Date = Some ''2023-03-05'', raw_Hours_Viewed = Some ''1,000,000'',
       raw_Language_Indicator = Some ''English''\<rparr>,
      \<lparr>raw_Title = Some ''B'', raw_Content_Type = Some ''Movie'',
       raw_Release_Date = Some ''2023-03-09'', raw_Hours_Viewed = Some ''500,000'',
       raw_Language_Indicator = Some ''Spanish''\<rparr>,
      \<lparr>raw_Title = Some ''C'', raw_Content_Type = Some ''Show'',
       raw_Release_Date = Some ''soon'', raw_Hours_Viewed = Some ''250'',
       raw_Language_Indicator = Some ''English''\<rparr>]"

definition example_to_float :: "string \<Rightarrow> real option option" where
  "example_to_float s =
     (if s = ''1000000'' then Some (Some 1000000)
      else if s = ''500000'' then Some (Some 500000)
      else if s = ''250'' then Some (Some 250)
      else None)"

definition example_parse_date :: "string \<Rightarrow> timestamp option" where
  "example_parse_date s =
     (if s = ''2023-03-05'' then Some 1677974400000000000
      else if s = ''2023-03-09'' then Some 1678320000000000000
      else None)"

definition example_table :: "netflix_row list" where
  "example_table =
     [\<lparr>Title = Some ''A'', Content_Type = Some ''Movie'',
       Release_Date = Some 1677974400000000000, Hours_Viewed = Some 1000000,
       Language_Indicator = Some ''English'', Release_Month = Some 3,
       Release_Day = Some ''Sunday''\<rparr>,
      \<lparr>Title = Some ''B'', Content_Type = Some ''Movie'',
       Release_Date = Some 1678320000000000000, Hours_Viewed = Some 500000,
       Language_Indicator = Some ''Spanish'', Release_Month = Some 3,
       Release_Day = Some ''Thursday''\<rparr>,
      \<lparr>Title = Some ''C'', Content_Type = Some ''Show'',
       Release_Date = None, Hours_Viewed = Some 250,
       Language_Indicator = Some ''English'', Release_Month = None,
       Release_Day = None\<rparr>]"


text \<open>A table of two rows, one of them without a Content Type.\<close>

definition example_missing_type :: "netflix_row list" where
  "example_missing_type =
     [\<lparr>Title = Some ''A'', Content_Type = Some ''Movie'',
       Release_Date = Some 1677974400000000000, Hours_Viewed = Some 1000000,
       Language_Indicator = Some ''English'', Release_Month = Some 3,
       Release_Day = Some ''Sunday''\<rparr>,
      \<lparr>Title = Some ''D'', Content_Type = None,
       Release_Date = Some 1678320000000000000, Hours_Viewed = Some 10,
       Language_Indicator = Some ''English'', Release_Month = Some 3,
       Release_Day = Some ''Thursday''\<rparr>]"

subsection \<open>The claims' own words\<close>

text \<open>
  The row selection as the filter contract words it: the type equals the selected one,
  the month is present and within the range, and the language set is empty or holds
  the row's language.
\<close>

definition selected :: "string \<Rightarrow> int \<Rightarrow> int \<Rightarrow> string list \<Rightarrow> netflix_row \<Rightarrow> bool" where
  "selected content_type lo hi languages r \<longleftrightarrow>
     Content_Type r = Some content_type \<and>
     (\<exists>m. Release_Month r = Some m \<and> lo \<le> m \<and> m \<le> hi) \<and>
     (languages = [] \<or> (\<exists>l. Language_Indicator r = Some l \<and> l \<in> set languages))"


section \<open>Properties\<close>

subsection \<open>Calendar fields\<close>

lemma month_loop_hit:
  "0 \<le> days \<Longrightarrow> days < sum_list month_lengths \<Longrightarrow>
     \<exists>month day. month_loop month_lengths days i = Some (month, day) \<and>
        i < month \<and> month \<le> i + int (length month_lengths)"
proof (induction month_lengths arbitrary: days i)
  case Nil
  then show ?case by simp
next
  case (Cons len month_lengths)
  show ?case
  proof (cases "days < len")
    case True
    then show ?thesis by simp
  next
    case False
    with Cons.prems have "0 \<le> days - len" "days - len < sum_list month_lengths" by simp_all
    from Cons.IH [OF this, of "i + 1"] False show ?thesis by auto
  qed
qed

lemma leap_400: "is_leapyear (400 * k + 2000)"
proof -
  have "400 * k + 2000 = 4 * (100 * k + 500)" by simp
  then have m4: "(400 * k + 2000) mod 4 = 0" by (simp only: mod_mult_self1_is_0)
  have "400 * k + 2000 = 400 * (k + 5)" by simp
  then have "(400 * k + 2000) mod 400 = 0" by (simp only: mod_mult_self1_is_0)
  with m4 show ?thesis by (simp add: is_leapyear_def)
qed

lemma leap_4:
  assumes "1 \<le> q" "q \<le> 24"
  shows "is_leapyear (400 * k + 100 * c + 4 * q + 2000)"
proof -
  let ?y = "400 * k + 100 * c + 4 * q + 2000"
  have "?y = 4 * (100 * k + 25 * c + q + 500)" by simp
  then have m4: "?y mod 4 = 0" by (simp only: mod_mult_self1_is_0)
  have "?y = 4 * q + 100 * (4 * k + c + 20)" by simp
  then have "?y mod 100 = (4 * q) mod 100" by (simp only: mod_mult_self2)
  also from assms have "\<dots> = 4 * q" by simp
  finally have "?y mod 100 \<noteq> 0" using assms by simp
  with m4 show ?thesis by (simp add: is_leapyear_def)
qed

lemma yearsdays_cases:
  fixes n :: int
  assumes "days_to_yearsdays n = (year, days)"
  shows "0 \<le> days \<and> (days < 365 \<or> (days = 365 \<and> is_leapyear year))"
proof -
  define d1 where "d1 = n - (365 * 30 + 7)"
  define k where "k = d1 div 146097"
  define d2 where "d2 = d1 mod 146097"
  define c where "c = (d2 - 1) div 36524"
  define d3 where "d3 = (d2 - 1) mod 36524"
  define q where "q = (d3 + 1) div 1461"
  define d4 where "d4 = (d3 + 1) mod 1461"
  define a where "a = (d4 - 1) div 365"
  define d5 where "d5 = (d4 - 1) mod 365"
  have d2: "0 \<le> d2" by (simp add: d2_def)
  have d3: "0 \<le> d3" "d3 < 36524" by (simp_all add: d3_def)
  have d4: "0 \<le> d4" by (simp add: d4_def)
  have d5: "0 \<le> d5" "d5 < 365" by (simp_all add: d5_def)
  have eq3: "d3 + 1 = 1461 * q + d4" by (simp add: q_def d4_def)
  have n1: "(400 * 365 + 100 - 4 + 1 :: int) = 146097" by simp
  have n2: "(100 * 365 + 25 - 1 :: int) = 36524" by simp
  have n3: "(4 * 365 + 1 :: int) = 1461" by simp
  have "days_to_yearsdays n =
     (if d2 \<ge> 366 then
        if d3 \<ge> 365 then
          if d4 \<ge> 366 then (400 * k + 100 * c + 4 * q + a + 2000, d5)
          else (400 * k + 100 * c + 4 * q + 2000, d4)
        else (400 * k + 100 * c + 2000, d3)
      else (400 * k + 2000, d2))"
    unfolding days_to_yearsdays_def Let_def days_per_400years_def n1 n2 n3
          d1_def k_def d2_def c_def d3_def q_def d4_def a_def d5_def
    by (rule refl)
  with assms have res: "(year, days) =
     (if d2 \<ge> 366 then
        if d3 \<ge> 365 then
          if d4 \<ge> 366 then (400 * k + 100 * c + 4 * q + a + 2000, d5)
          else (400 * k + 100 * c + 4 * q + 2000, d4)
        else (400 * k + 100 * c + 2000, d3)
      else (400 * k + 2000, d2))" by simp
  show ?thesis
  proof (cases "d2 \<ge> 366")
    case False
    with res have "year = 400 * k + 2000" "days = d2" by simp_all
    with False d2 leap_400 [of k] show ?thesis by auto
  next
    case big2: True
    show ?thesis
    proof (cases "d3 \<ge> 365")
      case False
      with big2 res have "days = d3" by simp
      with False d3 show ?thesis by simp
    next
      case big3: True
      show ?thesis
      proof (cases "d4 \<ge> 366")
        case True
        with big2 big3 res have "days = d5" by simp
        with d5 show ?thesis by simp
      next
        case False
        with big2 big3 res have yd: "year = 400 * k + 100 * c + 4 * q + 2000" "days = d4"
          by simp_all
        from eq3 False big3 have "1 \<le> q" by simp
        moreover from eq3 d4 d3 have "q \<le> 24" by simp
        ultimately have "is_leapyear year" unfolding yd by (rule leap_4)
        with False d4 yd show ?thesis by auto
      qed
    qed
  qed
qed


lemma datetimestruct_total:
  "\<exists>year month day. datetimestruct ts = Some (year, month, day) \<and> 1 \<le> month \<and> month \<le> 12"
proof -
  obtain year days where yd: "days_to_yearsdays (ts div ns_per_day) = (year, days)"
    by (cases "days_to_yearsdays (ts div ns_per_day)")
  from yearsdays_cases [OF yd]
  have "0 \<le> days" "days < sum_list (days_per_month_table (is_leapyear year))"
    by (auto simp: days_per_month_table_def)
  from month_loop_hit [OF this, of 0]
  obtain month day where
    "month_loop (days_per_month_table (is_leapyear year)) days 0 = Some (month, day)"
    "0 < month" "month \<le> 0 + int (length (days_per_month_table (is_leapyear year)))"
    by blast
  with yd show ?thesis
    by (auto simp: datetimestruct_def days_per_month_table_def split: if_splits)
qed

lemma dayofweek_range: "0 \<le> dayofweek y m d \<and> dayofweek y m d < 7"
  by (simp add: dayofweek_def Let_def)

lemma day_name_in_week: "DAYS_FULL ! nat (dayofweek y m d) \<in> set week"
proof -
  have "length DAYS_FULL = 7" by (simp add: DAYS_FULL_def)
  with dayofweek_range [of y m d] have "nat (dayofweek y m d) < length DAYS_FULL"
    by (auto simp: nat_less_iff)
  then have "DAYS_FULL ! nat (dayofweek y m d) \<in> set DAYS_FULL" by (rule nth_mem)
  moreover have "DAYS_FULL = week" by (simp add: DAYS_FULL_def week_def)
  ultimately show ?thesis by simp
qed

subsection \<open>Preprocessing\<close>

lemma astype_float_Inr_iff:
  "astype_float to_float cells = Inr vs \<longleftrightarrow>
     list_all2 (\<lambda>cell v. case cell of None \<Rightarrow> v = None | Some s \<Rightarrow> to_float s = Some v) cells vs"
proof (induction to_float cells arbitrary: vs rule: astype_float.induct)
  case (1 to_float)
  show ?case by auto
next
  case (2 to_float cells)
  from 2 [symmetric] show ?case by (auto simp: list_all2_Cons1 split: sum.splits)
next
  case (3 to_float s cells)
  show ?case
  proof (cases "to_float s")
    case None
    then show ?thesis by (simp add: list_all2_Cons1)
  next
    case (Some v)
    from 3 [OF Some, symmetric] Some show ?thesis
      by (auto simp: list_all2_Cons1 split: sum.splits)
  qed
qed

lemma astype_float_Inl_iff:
  "astype_float to_float cells = Inl e \<longleftrightarrow> (\<exists>s. Some s \<in> set cells \<and> to_float s = None)"
proof (induction to_float cells rule: astype_float.induct)
  case (1 to_float)
  show ?case by simp
next
  case (2 to_float cells)
  then show ?case by (cases e) (auto split: sum.splits)
next
  case (3 to_float s cells)
  then show ?case by (cases e) (auto split: sum.splits option.splits)
qed

lemma preprocess_Inl_iff:
  "preprocess to_float parse_date raw = Inl e \<longleftrightarrow>
     (\<exists>r\<in>set raw. \<exists>s. raw_Hours_Viewed r = Some s \<and>
        to_float (filter (\<lambda>c. c \<noteq> CHR '','') s) = None)"
proof -
  have "preprocess to_float parse_date raw = Inl e \<longleftrightarrow>
          astype_float to_float (map (replace_commas \<circ> raw_Hours_Viewed) raw) = Inl e"
    by (simp add: preprocess_def split: sum.splits)
  also have "\<dots> \<longleftrightarrow> (\<exists>s. Some s \<in> set (map (replace_commas \<circ> raw_Hours_Viewed) raw) \<and>
                to_float s = None)"
    by (rule astype_float_Inl_iff)
  also have "\<dots> \<longleftrightarrow> (\<exists>r\<in>set raw. \<exists>s. raw_Hours_Viewed r = Some s \<and>
                to_float (filter (\<lambda>c. c \<noteq> CHR '','') s) = None)"
  proof
    assume "\<exists>s. Some s \<in> set (map (replace_commas \<circ> raw_Hours_Viewed) raw) \<and> to_float s = None"
    then obtain s r where "r \<in> set raw" "Some s = replace_commas (raw_Hours_Viewed r)"
      "to_float s = None" by auto
    then show "\<exists>r\<in>set raw. \<exists>s. raw_Hours_Viewed r = Some s \<and>
                to_float (filter (\<lambda>c. c \<noteq> CHR '','') s) = None"
      by (cases "raw_Hours_Viewed r") (auto simp: replace_commas_def)
  next
    assume "\<exists>r\<in>set raw. \<exists>s. raw_Hours_Viewed r = Some s \<and>
                to_float (filter (\<lambda>c. c \<noteq> CHR '','') s) = None"
    then obtain r s where "r \<in> set raw" "raw_Hours_Viewed r = Some s"
      "to_float (filter (\<lambda>c. c \<noteq> CHR '','') s) = None" by auto
    then have "Some (filter (\<lambda>c. c \<noteq> CHR '','') s)
                 \<in> set (map (replace_commas \<circ> raw_Hours_Viewed) raw)"
      by (force simp: replace_commas_def)
    with \<open>to_float (filter (\<lambda>c. c \<noteq> CHR '','') s) = None\<close>
    show "\<exists>s. Some s \<in> set (map (replace_commas \<circ> raw_Hours_Viewed) raw) \<and> to_float s = None"
      by blast
  qed
  finally show ?thesis .
qed

lemma preprocess_Inr_rows:
  assumes "preprocess to_float parse_date raw = Inr netflix_data"
  shows "list_all2 (\<lambda>r row. \<exists>hours. row = preprocess_row parse_date r hours \<and>
            (case raw_Hours_Viewed r of None \<Rightarrow> hours = None
             | Some s \<Rightarrow> to_float (filter (\<lambda>c. c \<noteq> CHR '','') s) = Some hours))
          raw netflix_data"
proof -
  from assms obtain hours where
    h: "astype_float to_float (map (replace_commas \<circ> raw_Hours_Viewed) raw) = Inr hours"
    and t: "netflix_data = map2 (preprocess_row parse_date) raw hours"
    by (auto simp: preprocess_def split: sum.splits)
  from h have l: "list_all2 (\<lambda>cell v. case cell of None \<Rightarrow> v = None | Some s \<Rightarrow> to_float s = Some v)
          (map (replace_commas \<circ> raw_Hours_Viewed) raw) hours"
    by (simp only: astype_float_Inr_iff)
  then have len: "length hours = length raw" by (auto dest: list_all2_lengthD)
  show ?thesis
    unfolding t list_all2_conv_all_nth
  proof (intro conjI allI impI)
    show "length raw = length (map2 (preprocess_row parse_date) raw hours)"
      using len by simp
  next
    fix i assume i: "i < length raw"
    with l len have "case (replace_commas \<circ> raw_Hours_Viewed) (raw ! i) of
                  None \<Rightarrow> hours ! i = None | Some s \<Rightarrow> to_float s = Some (hours ! i)"
      by (auto simp: list_all2_conv_all_nth)
    then have "case raw_Hours_Viewed (raw ! i) of None \<Rightarrow> hours ! i = None
                | Some s \<Rightarrow> to_float (filter (\<lambda>c. c \<noteq> CHR '','') s) = Some (hours ! i)"
      by (auto simp: replace_commas_def split: option.splits)
    with i len show "\<exists>hs. map2 (preprocess_row parse_date) raw hours ! i =
                  preprocess_row parse_date (raw ! i) hs \<and>
               (case raw_Hours_Viewed (raw ! i) of None \<Rightarrow> hs = None
                | Some s \<Rightarrow> to_float (filter (\<lambda>c. c \<noteq> CHR '','') s) = Some hs)"
      by (intro exI [of _ "hours ! i"]) simp
  qed
qed


subsection \<open>The concrete table, evaluated\<close>

lemma struct_1: "datetimestruct 1677974400000000000 = Some (2023, 3, 5)"
  by (simp add: datetimestruct_def ns_per_day_def days_to_yearsdays_def days_per_400years_def
        is_leapyear_def days_per_month_table_def Let_def)

lemma struct_2: "datetimestruct 1678320000000000000 = Some (2023, 3, 9)"
  by (simp add: datetimestruct_def ns_per_day_def days_to_yearsdays_def days_per_400years_def
        is_leapyear_def days_per_month_table_def Let_def)

lemma example_hours:
  "astype_float example_to_float (map (replace_commas \<circ> raw_Hours_Viewed) example_raw)
     = Inr [Some 1000000, Some 500000, Some 250]"
  by (simp add: example_raw_def replace_commas_def example_to_float_def)

lemma example_preprocess:
  "preprocess example_to_float example_parse_date example_raw = Inr example_table"
  unfolding preprocess_def example_hours
  by (simp add: example_raw_def example_table_def preprocess_row_def to_datetime_def
        example_parse_date_def dt_month_def dt_day_name_def struct_1 struct_2
        dayofweek_def em_def DAYS_FULL_def Let_def)


subsection \<open>Derived columns and Hours Viewed\<close>

lemma preprocess_row_of:
  assumes "preprocess to_float parse_date raw = Inr netflix_data" and "r \<in> set netflix_data"
  shows "\<exists>x hours. x \<in> set raw \<and> r = preprocess_row parse_date x hours"
proof -
  from assms(2) obtain i where i: "i < length netflix_data" "r = netflix_data ! i"
    by (auto simp: in_set_conv_nth)
  from preprocess_Inr_rows [OF assms(1)] i
  have "length raw = length netflix_data"
    and "\<exists>hours. netflix_data ! i = preprocess_row parse_date (raw ! i) hours"
    by (auto simp: list_all2_conv_all_nth)
  with i show ?thesis by (metis nth_mem)
qed

lemma dt_month_range:
  "\<exists>year month day. datetimestruct ts = Some (year, month, day) \<and>
     dt_month (Some ts) = Some month \<and> 1 \<le> month \<and> month \<le> 12 \<and>
     dt_day_name (Some ts) = Some (DAYS_FULL ! nat (dayofweek year month day))"
proof -
  from datetimestruct_total [of ts] obtain year month day where
    "datetimestruct ts = Some (year, month, day)" "1 \<le> month" "month \<le> 12" by blast
  then show ?thesis by (simp add: dt_month_def dt_day_name_def)
qed

text \<open>
  C5. After preprocessing, every row's Release Month is missing or an integer from 1
  to 12, and its Release Day is missing or one of the seven weekday names. Both are
  derived from the row's Release Date: they are missing exactly when the date is
  missing, and are otherwise the month and the weekday name of that date.
\<close>

theorem release_month_and_day_derived:
  assumes "preprocess to_float parse_date raw = Inr netflix_data"
    and "r \<in> set netflix_data"
  shows "(Release_Month r = None \<or> (\<exists>m. Release_Month r = Some m \<and> 1 \<le> m \<and> m \<le> 12)) \<and>
         (Release_Day r = None \<or> (\<exists>d. Release_Day r = Some d \<and> d \<in> set week)) \<and>
         (Release_Month r = None \<longleftrightarrow> Release_Date r = None) \<and>
         (Release_Day r = None \<longleftrightarrow> Release_Date r = None) \<and>
         Release_Month r = dt_month (Release_Date r) \<and>
         Release_Day r = dt_day_name (Release_Date r)"
proof -
  from preprocess_row_of [OF assms] obtain x hours where
    r: "r = preprocess_row parse_date x hours" by blast
  then have derived: "Release_Month r = dt_month (Release_Date r)"
    "Release_Day r = dt_day_name (Release_Date r)"
    by (simp_all add: preprocess_row_def Let_def)
  show ?thesis
  proof (cases "Release_Date r")
    case None
    with derived show ?thesis by (simp add: dt_month_def dt_day_name_def)
  next
    case (Some ts)
    from dt_month_range [of ts] obtain year month day where
      "dt_month (Some ts) = Some month" "1 \<le> month" "month \<le> 12"
      "dt_day_name (Some ts) = Some (DAYS_FULL ! nat (dayofweek year month day))" by blast
    with derived Some day_name_in_week [of year month day] show ?thesis by simp
  qed
qed

theorem release_month_and_day_derived_witness:
  "preprocess example_to_float example_parse_date example_raw = Inr example_table \<and>
   example_table ! 0 \<in> set example_table \<and>
   Release_Date (example_table ! 0) = Some 1677974400000000000 \<and>
   Release_Month (example_table ! 0) = Some 3 \<and>
   dt_month (Release_Date (example_table ! 0)) = Some 3 \<and>
   Release_Day (example_table ! 0) = Some ''Sunday'' \<and>
   dt_day_name (Release_Date (example_table ! 0)) = Some ''Sunday'' \<and>
   ''Sunday'' \<in> set week"
proof -
  have mem: "example_table ! 0 \<in> set example_table" by (simp add: example_table_def)
  from release_month_and_day_derived [OF example_preprocess mem] example_preprocess mem
  show ?thesis by (simp add: example_table_def week_def)
qed

text \<open>
  C3. Preprocessing removes every comma from a row's Hours Viewed text and reads the
  rest as a number. If some row's text cannot be read after the commas are removed,
  the whole preprocessing raises ValueError; otherwise every row holds exactly the
  number read from its text without commas, and a missing cell stays missing. No text
  is ever cut down to some other number.
\<close>

theorem hours_viewed_parsed_or_raises:
  "(if \<exists>r\<in>set raw. \<exists>s. raw_Hours_Viewed r = Some s \<and>
          to_float (filter (\<lambda>c. c \<noteq> CHR '','') s) = None
    then preprocess to_float parse_date raw = Inl ValueError
    else \<exists>netflix_data. preprocess to_float parse_date raw = Inr netflix_data \<and>
           list_all2 (\<lambda>r row. case raw_Hours_Viewed r of
                                 None \<Rightarrow> Hours_Viewed row = None
                               | Some s \<Rightarrow> to_float (filter (\<lambda>c. c \<noteq> CHR '','') s)
                                             = Some (Hours_Viewed row))
             raw netflix_data)"
proof (cases "\<exists>r\<in>set raw. \<exists>s. raw_Hours_Viewed r = Some s \<and>
          to_float (filter (\<lambda>c. c \<noteq> CHR '','') s) = None")
  case True
  then have "preprocess to_float parse_date raw = Inl ValueError"
    by (simp only: preprocess_Inl_iff)
  with True show ?thesis by simp
next
  case False
  then have "\<not> preprocess to_float parse_date raw = Inl ValueError"
    by (simp add: preprocess_Inl_iff)
  then obtain netflix_data where nd: "preprocess to_float parse_date raw = Inr netflix_data"
    by (cases "preprocess to_float parse_date raw") (auto intro: error.exhaust)
  from preprocess_Inr_rows [OF nd]
  have "list_all2 (\<lambda>r row. case raw_Hours_Viewed r of
                                 None \<Rightarrow> Hours_Viewed row = None
                               | Some s \<Rightarrow> to_float (filter (\<lambda>c. c \<noteq> CHR '','') s)
                                             = Some (Hours_Viewed row))
             raw netflix_data"
    by (rule list_all2_mono) (auto simp: preprocess_row_def Let_def split: option.splits)
  with nd False show ?thesis by simp
qed

theorem hours_viewed_parsed_or_raises_witness:
  "preprocess example_to_float example_parse_date example_raw = Inr example_table \<and>
   map Hours_Viewed example_table = [Some 1000000, Some 500000, Some 250] \<and>
   preprocess (\<lambda>s. None) example_parse_date example_raw = Inl ValueError"
proof -
  have "\<exists>r\<in>set example_raw. \<exists>s. raw_Hours_Viewed r = Some s \<and>
          (\<lambda>s. None :: real option option) (filter (\<lambda>c. c \<noteq> CHR '','') s) = None"
    by (simp add: example_raw_def)
  with hours_viewed_parsed_or_raises [of example_raw "\<lambda>s. None" example_parse_date]
  have "preprocess (\<lambda>s. None) example_parse_date example_raw = Inl ValueError"
    by (simp only: if_True)
  with example_preprocess show ?thesis by (simp add: example_table_def)
qed


subsection \<open>Filtering\<close>

lemma filtered_data_rows:
  "r \<in> set (filtered_data netflix_data content_type month_range languages) \<Longrightarrow>
     r \<in> set netflix_data \<and> Content_Type r \<noteq> None \<and> Content_Type r = content_type \<and>
     Release_Month r \<noteq> None"
  by (auto simp: filtered_data_def Let_def eq_scalar_def between_def
        split: if_splits option.splits)

lemma filtered_data_selected:
  "filtered_data netflix_data (Some content_type) (lo, hi) languages =
     filter (selected content_type lo hi languages) netflix_data"
proof (cases "languages = []")
  case True
  have "\<And>r. eq_scalar (Content_Type r) (Some content_type) \<and> between (Release_Month r) lo hi
          \<longleftrightarrow> selected content_type lo hi [] r"
    by (auto simp: eq_scalar_def between_def selected_def split: option.splits)
  with True show ?thesis by (simp add: filtered_data_def)
next
  case False
  have "\<And>r. (eq_scalar (Content_Type r) (Some content_type) \<and> between (Release_Month r) lo hi)
            \<and> isin (Language_Indicator r) languages
          \<longleftrightarrow> selected content_type lo hi languages r"
    using False
    by (auto simp: eq_scalar_def between_def isin_def selected_def split: option.splits)
  with False show ?thesis by (simp add: filtered_data_def conj_commute)
qed

text \<open>
  C2. For every table, content type, month range and language list, the filter returns
  exactly the rows that the contract selects, in the order of the table: the type
  equals the selected type, the month is present and within the range (bounds
  included), and the language list is empty or holds the row's language. When no row
  is selected the result is the empty table; the filter has no error outcome. The
  equation holds for every pair of bounds, in particular for 1 \<le> lo \<le> hi \<le> 12.
\<close>

theorem filtered_data_is_selected_subsequence:
  "filtered_data netflix_data (Some content_type) (lo, hi) languages =
     filter (selected content_type lo hi languages) netflix_data \<and>
   ((\<forall>r\<in>set netflix_data. \<not> selected content_type lo hi languages r) \<longrightarrow>
      filtered_data netflix_data (Some content_type) (lo, hi) languages = [])"
  by (simp add: filtered_data_selected filter_empty_conv)

theorem filtered_data_is_selected_subsequence_witness:
  "filtered_data example_table (Some ''Movie'') (4, 12) [''English''] = [] \<and>
   filtered_data example_table (Some ''Movie'') (1, 12) [''Spanish''] = [example_table ! 1] \<and>
   filter (selected ''Movie'' 1 12 [''Spanish'']) example_table = [example_table ! 1]"
proof -
  have none: "\<forall>r\<in>set example_table. \<not> selected ''Movie'' 4 12 [''English''] r"
    by (simp add: example_table_def selected_def)
  have "filter (selected ''Movie'' 1 12 [''Spanish'']) example_table = [example_table ! 1]"
    by (simp add: example_table_def selected_def)
  with none
    filtered_data_is_selected_subsequence [of example_table "''Movie''" 4 12 "[''English'']"]
    filtered_data_is_selected_subsequence [of example_table "''Movie''" 1 12 "[''Spanish'']"]
  show ?thesis by simp
qed

subsection \<open>Summary metrics\<close>

lemma most_viewed_type_empty: "most_viewed_type [] = Inl ValueError"
  by (simp add: most_viewed_type_def groupby_sum_def dropna_def)

lemma dropna_same:
  "\<forall>r\<in>set df. key r = Some k \<Longrightarrow> dropna (map key df) = replicate (length df) k"
  by (induction df) (simp_all add: dropna_def)

lemma remdups_replicate_pos: "0 < n \<Longrightarrow> remdups (replicate n x) = [x]"
  by (induction n) auto

lemma groupby_sum_one_group:
  assumes "df \<noteq> []" and "\<forall>r\<in>set df. key r = Some k"
  shows "groupby_sum key df = [(k, nansum (map Hours_Viewed df))]"
proof -
  from assms(1) have "remdups (replicate (length df) k) = [k]"
    by (simp add: remdups_replicate_pos)
  moreover from assms(2) have "filter (\<lambda>r. key r = Some k) df = df" by simp
  ultimately show ?thesis
    by (simp add: groupby_sum_def dropna_same [OF assms(2)])
qed

text \<open>
  C10. Whenever the filtered table has a row, the most viewed type is the selected
  content type: every filtered row has that type, so the sums by type have one entry,
  and the script shows that type among the summary metrics.
\<close>

theorem most_viewed_type_is_selected:
  assumes "filtered_data netflix_data content_type month_range languages \<noteq> []"
  shows "\<exists>ct. content_type = Some ct \<and>
           most_viewed_type (filtered_data netflix_data content_type month_range languages)
             = Inr ct \<and>
           (\<exists>v. dashboard netflix_data content_type month_range languages = Inr v \<and>
                shown_most_viewed_type v = ct)"
proof -
  let ?F = "filtered_data netflix_data content_type month_range languages"
  from assms obtain r where "r \<in> set ?F" by (cases ?F) auto
  from filtered_data_rows [OF this] obtain ct where ct: "content_type = Some ct" by auto
  have "\<forall>r\<in>set ?F. Content_Type r = Some ct"
    using filtered_data_rows [of _ netflix_data content_type month_range languages] ct
    by auto
  from groupby_sum_one_group [OF assms this]
  have mvt: "most_viewed_type ?F = Inr ct" by (simp add: most_viewed_type_def)
  then have "\<exists>v. dashboard netflix_data content_type month_range languages = Inr v \<and>
                shown_most_viewed_type v = ct"
    by (simp add: dashboard_def Let_def)
  with ct mvt show ?thesis by simp
qed

lemma example_filtered_all:
  "filtered_data example_table (Some ''Movie'') (1, 12) [] = [example_table ! 0, example_table ! 1]"
  by (simp add: filtered_data_def example_table_def eq_scalar_def between_def)

theorem most_viewed_type_is_selected_witness:
  "filtered_data example_table (Some ''Movie'') (1, 12) [] \<noteq> [] \<and>
   most_viewed_type (filtered_data example_table (Some ''Movie'') (1, 12) []) = Inr ''Movie''"
proof -
  have ne: "filtered_data example_table (Some ''Movie'') (1, 12) [] \<noteq> []"
    by (simp add: example_filtered_all)
  from most_viewed_type_is_selected [OF ne] ne show ?thesis by simp
qed

lemma example_filtered_none:
  "filtered_data example_table (Some ''Movie'') (4, 12) [] = []"
  by (simp add: filtered_data_def example_table_def eq_scalar_def between_def)

text \<open>
  C1. On the concrete table, the selection of films released from April to December
  leaves no row. The total of hours and the number of distinct titles of the empty
  table are both 0, but the most viewed type raises ValueError, and with it the whole
  run of the script ends in that error.
\<close>

theorem empty_filter_summary_raises:
  "filtered_data example_table (Some ''Movie'') (4, 12) [] = [] \<and>
   total_hours (filtered_data example_table (Some ''Movie'') (4, 12) []) = 0 \<and>
   unique_titles (filtered_data example_table (Some ''Movie'') (4, 12) []) = 0 \<and>
   most_viewed_type (filtered_data example_table (Some ''Movie'') (4, 12) []) = Inl ValueError \<and>
   dashboard example_table (Some ''Movie'') (4, 12) [] = Inl ValueError"
  by (simp add: example_filtered_none most_viewed_type_empty dashboard_def total_hours_def
        unique_titles_def nansum_def nunique_def unique_def dropna_def)


subsection \<open>Grouping and counting\<close>


lemma length_dropna_map:
  "length (dropna (map key df)) = length (filter (\<lambda>r. key r \<noteq> None) df)"
  by (induction df) (auto simp: dropna_def)

lemma distinct_unique: "distinct (unique xs)"
  by (simp add: unique_def)

lemma set_unique: "set (unique xs) = set xs"
  by (simp add: unique_def)

lemma mset_sort_desc: "mset (sort_desc by xs) = mset xs"
  by (simp add: sort_desc_def)

lemma sum_list_sort_desc:
  fixes f :: "'a \<Rightarrow> nat"
  shows "sum_list (map f (sort_desc by xs)) = sum_list (map f xs)"
proof -
  have "sum_list (map f (sort_desc by xs)) = sum_mset (mset (map f (sort_desc by xs)))"
    by (simp only: sum_mset_sum_list)
  also have "\<dots> = sum_mset (mset (map f xs))"
    by (simp add: mset_sort_desc)
  also have "\<dots> = sum_list (map f xs)"
    by (simp only: sum_mset_sum_list)
  finally show ?thesis .
qed

lemma value_counts_total: "sum_list (map snd (value_counts col)) = length (dropna col)"
proof -
  let ?vals = "dropna col"
  have "sum_list (map snd (value_counts col))
          = sum_list (map (count_list ?vals) (unique ?vals))"
    by (simp add: value_counts_def Let_def sum_list_sort_desc comp_def)
  also have "\<dots> = sum (count_list ?vals) (set (unique ?vals))"
    by (rule sum_list_distinct_conv_sum_set) (rule distinct_unique)
  also have "\<dots> = length ?vals"
    by (rule sum_count_set) (simp_all add: set_unique)
  finally show ?thesis .
qed

text \<open>
  C9 as the code has it. The counts of the content distribution, added up over all
  types, equal the number of rows whose Content Type is not missing: a row without a
  type is counted in no group. Where no row lacks its type this is the number of rows
  of the table.
\<close>

theorem content_distribution_total:
  "sum_list (map snd (content_distribution netflix_data))
     = length (filter (\<lambda>r. Content_Type r \<noteq> None) netflix_data) \<and>
   ((\<forall>r\<in>set netflix_data. Content_Type r \<noteq> None) \<longrightarrow>
      sum_list (map snd (content_distribution netflix_data)) = length netflix_data)"
  by (simp add: content_distribution_def value_counts_total length_dropna_map)

theorem content_distribution_total_witness:
  "sum_list (map snd (content_distribution example_table)) = 3 \<and>
   length example_table = 3"
proof -
  have all: "\<forall>r\<in>set example_table. Content_Type r \<noteq> None"
    by (simp add: example_table_def)
  have "length example_table = 3" by (simp add: example_table_def)
  with all content_distribution_total [of example_table] show ?thesis by simp
qed

text \<open>
  C9 as stated fails on a table with a row whose Content Type is missing. The table
  below has two rows, a film and a row without a type. With the film type selected the
  run gets past the summary metrics, and the content distribution counts one row.
\<close>

theorem content_distribution_total_counterexample:
  "most_viewed_type (filtered_data example_missing_type (Some ''Movie'') (1, 12) [])
     = Inr ''Movie'' \<and>
   sum_list (map snd (content_distribution example_missing_type)) = 1 \<and>
   length example_missing_type = 2 \<and>
   sum_list (map snd (content_distribution example_missing_type))
     \<noteq> length example_missing_type"
  by (simp add: example_missing_type_def content_distribution_def value_counts_def
        dropna_def unique_def sort_desc_def most_viewed_type_def groupby_sum_def
        filtered_data_def eq_scalar_def between_def)

subsection \<open>Top content\<close>






lemma example_top:
  "top_content example_table = [(Some ''A'', Some 1000000), (Some ''B'', Some 500000), (Some ''C'', Some 250)]"
  by (simp add: top_content_def example_table_def sort_values_desc_def sort_desc_def)

subsection \<open>Weekly patterns\<close>









subsection \<open>Rows without a date\<close>










end
